theory Spec2Isabelle
  imports Complex_Main "HOL-Library.Word" "HOL-Library.Log_Nat" "HOL-Library.AList"
begin

section \<open>JavaScript values\<close>

text \<open>
  A JavaScript string is a sequence of 16-bit code units; \<open>length\<close>, the character classes
  of a regular expression without the \<open>u\<close> flag and \<open>.\<close> all work on code units.
  \<open>js\<close> writes a Latin-1 literal as such a string.
\<close>

type_synonym code_unit = "16 word"
type_synonym jsstring = "code_unit list"

definition js :: "string \<Rightarrow> jsstring" where
  "js s = map (\<lambda>c. of_nat (of_char c)) s"

text \<open>
  The text fields of a request body (\<open>username\<close>, \<open>password\<close>, \<open>albumExternalId\<close>, ...)
  are a string or missing (\<open>None\<close>: the property is absent or \<open>null\<close>); bodies that carry
  another JSON type in a text field are outside the model. \<open>!field\<close> is true for a missing
  field and for the empty string: \<open>present\<close> gives the string of a truthy field, and is
  \<open>field || null\<close> as well.
\<close>

definition present :: "jsstring option \<Rightarrow> jsstring option" where
  "present field = (case field of None \<Rightarrow> None | Some s \<Rightarrow> if s = [] then None else Some s)"

text \<open>\<open>field || "default"\<close>\<close>

definition or_default :: "jsstring option \<Rightarrow> jsstring \<Rightarrow> jsstring" where
  "or_default field d = (case present field of None \<Rightarrow> d | Some s \<Rightarrow> s)"

text \<open>
  A number is a double: a finite value, an infinity or NaN. The finite values are held as
  rationals (every double is one), with no separate negative zero: the handlers only test
  a number for being falsy, for being an integer and against the bounds 1 and 5, and \<open>-0\<close>
  behaves as \<open>0\<close> in all three.
\<close>

datatype jsnum = Finite rat | PosInfinity | NegInfinity | NaN

text \<open>
  The \<open>rating\<close> and \<open>notes\<close> fields are taken at any scalar JSON type, since the handlers
  coerce them (arrays and objects are left out).
\<close>

datatype jsval = JUndefined | JNull | JBool bool | JNum jsnum | JStr jsstring

fun truthy :: "jsval \<Rightarrow> bool" where
  "truthy JUndefined = False"
| "truthy JNull = False"
| "truthy (JBool b) = b"
| "truthy (JNum n) = (n \<noteq> Finite 0 \<and> n \<noteq> NaN)"
| "truthy (JStr s) = (s \<noteq> [])"

text \<open>\<open>value == null\<close>\<close>

fun nullish :: "jsval \<Rightarrow> bool" where
  "nullish JUndefined = True"
| "nullish JNull = True"
| "nullish _ = False"

text \<open>\<open>value || null\<close>\<close>

definition or_null :: "jsval \<Rightarrow> jsval" where
  "or_null v = (if truthy v then v else JNull)"

subsection \<open>\<open>Number(value)\<close>\<close>

text \<open>
  The nearest double of a rational, ties to even, with the subnormal range and the overflow
  to an infinity: \<open>binade a\<close> is the exponent \<open>e\<close> with \<open>2^e \<le> a < 2^(e+1)\<close>.
\<close>

definition pow2 :: "int \<Rightarrow> rat" where
  "pow2 e = (if 0 \<le> e then 2 ^ nat e else 1 / 2 ^ nat (- e))"

definition binade :: "rat \<Rightarrow> int" where
  "binade a =
     (let (p, d) = quotient_of a;
          k = bitlen p - bitlen d
      in if pow2 k \<le> a then k else k - 1)"

definition round_half_even :: "rat \<Rightarrow> int" where
  "round_half_even q =
     (let f = \<lfloor>q\<rfloor>; r = q - of_int f
      in if r < 1 / 2 then f else if 1 / 2 < r then f + 1 else if even f then f else f + 1)"

definition to_double :: "rat \<Rightarrow> jsnum" where
  "to_double a =
     (if a = 0 then Finite 0
      else let m = \<bar>a\<bar>;
               e = max (binade m) (- 1022);
               ulp = pow2 (e - 52);
               v = of_int (round_half_even (m / ulp)) * ulp
           in if pow2 1024 \<le> v then (if a < 0 then NegInfinity else PosInfinity)
              else Finite (if a < 0 then - v else v))"

text \<open>
  The conversion of a string: white space and line terminators are trimmed, the empty
  string is 0, then a binary, octal or hexadecimal integer without sign, or a signed decimal
  literal with optional fraction and exponent, or a signed \<open>Infinity\<close>; anything else
  is NaN. The value of the literal is rounded to the nearest double.
\<close>

definition StrWhiteSpaceChar :: "code_unit \<Rightarrow> bool" where
  "StrWhiteSpaceChar c =
     (c \<in> set [0x0009, 0x000B, 0x000C, 0x0020, 0x00A0, 0x1680, 0x202F, 0x205F, 0x3000, 0xFEFF]
      \<or> (0x2000 \<le> c \<and> c \<le> 0x200A) \<or> c \<in> set [0x000A, 0x000D, 0x2028, 0x2029])"

definition trim :: "jsstring \<Rightarrow> jsstring" where
  "trim s = rev (dropWhile StrWhiteSpaceChar (rev (dropWhile StrWhiteSpaceChar s)))"

definition DecimalDigit :: "code_unit \<Rightarrow> bool" where
  "DecimalDigit c = (0x30 \<le> c \<and> c \<le> 0x39)"

definition digit_value :: "code_unit \<Rightarrow> int" where
  "digit_value c =
     (if 0x30 \<le> c \<and> c \<le> 0x39 then uint c - 0x30
      else if 0x61 \<le> c \<and> c \<le> 0x66 then uint c - 0x61 + 10
      else if 0x41 \<le> c \<and> c \<le> 0x46 then uint c - 0x41 + 10
      else 36)"

definition digits_value :: "int \<Rightarrow> jsstring \<Rightarrow> int" where
  "digits_value base ds = foldl (\<lambda>acc c. acc * base + digit_value c) 0 ds"

definition NonDecimalIntegerLiteral :: "jsstring \<Rightarrow> int option" where
  "NonDecimalIntegerLiteral s =
     (case s of
        z # x # ds \<Rightarrow>
          (let base = (if x = 0x78 \<or> x = 0x58 then 16
                       else if x = 0x6F \<or> x = 0x4F then 8
                       else if x = 0x62 \<or> x = 0x42 then 2 else 0)
           in if z = 0x30 \<and> ds \<noteq> [] \<and> list_all (\<lambda>c. digit_value c < base) ds
              then Some (digits_value base ds) else None)
      | _ \<Rightarrow> None)"

definition sign_prefix :: "jsstring \<Rightarrow> bool \<times> jsstring" where
  "sign_prefix s =
     (case s of
        [] \<Rightarrow> (False, [])
      | c # r \<Rightarrow> if c = 0x2B then (False, r) else if c = 0x2D then (True, r) else (False, s))"

definition SignedInteger :: "jsstring \<Rightarrow> int option" where
  "SignedInteger s =
     (let (negative, ds) = sign_prefix s
      in if ds \<noteq> [] \<and> list_all DecimalDigit ds
         then Some (if negative then - digits_value 10 ds else digits_value 10 ds)
         else None)"

definition ExponentPart :: "jsstring \<Rightarrow> int option" where
  "ExponentPart s =
     (case s of
        [] \<Rightarrow> Some 0
      | c # r \<Rightarrow> if c = 0x65 \<or> c = 0x45 then SignedInteger r else None)"

definition StrUnsignedDecimalLiteral :: "jsstring \<Rightarrow> rat option" where
  "StrUnsignedDecimalLiteral s =
     (let ip = takeWhile DecimalDigit s;
          r1 = dropWhile DecimalDigit s;
          (fp, r2) = (case r1 of
                        [] \<Rightarrow> ([], [])
                      | c # r \<Rightarrow> if c = 0x2E then (takeWhile DecimalDigit r, dropWhile DecimalDigit r)
                                 else ([], r1))
      in if ip = [] \<and> fp = [] then None
         else case ExponentPart r2 of
                None \<Rightarrow> None
              | Some e \<Rightarrow>
                  Some ((of_int (digits_value 10 ip) + of_int (digits_value 10 fp) / 10 ^ length fp)
                        * (if 0 \<le> e then 10 ^ nat e else 1 / 10 ^ nat (- e))))"

definition StringToNumber :: "jsstring \<Rightarrow> jsnum" where
  "StringToNumber s =
     (let t = trim s
      in if t = [] then Finite 0
         else if t = js ''Infinity'' \<or> t = js ''+Infinity'' then PosInfinity
         else if t = js ''-Infinity'' then NegInfinity
         else case NonDecimalIntegerLiteral t of
                Some n \<Rightarrow> to_double (of_int n)
              | None \<Rightarrow>
                  (let (negative, u) = sign_prefix t
                   in case StrUnsignedDecimalLiteral u of
                        None \<Rightarrow> NaN
                      | Some q \<Rightarrow> to_double (if negative then - q else q)))"

fun Number :: "jsval \<Rightarrow> jsnum" where
  "Number JUndefined = NaN"
| "Number JNull = Finite 0"
| "Number (JBool b) = Finite (if b then 1 else 0)"
| "Number (JNum n) = n"
| "Number (JStr s) = StringToNumber s"

definition Number_isInteger :: "jsnum \<Rightarrow> bool" where
  "Number_isInteger n = (case n of Finite q \<Rightarrow> of_int \<lfloor>q\<rfloor> = q | _ \<Rightarrow> False)"

text \<open>\<open>a < b\<close> on numbers: false when either is NaN.\<close>

fun js_less :: "jsnum \<Rightarrow> jsnum \<Rightarrow> bool" where
  "js_less NaN _ = False"
| "js_less _ NaN = False"
| "js_less (Finite a) (Finite b) = (a < b)"
| "js_less _ NegInfinity = False"
| "js_less NegInfinity _ = True"
| "js_less PosInfinity _ = False"
| "js_less _ PosInfinity = True"


section \<open>The regular expression of \<open>passwordMeetsRequirements\<close>\<close>

text \<open>
  The pattern language holds what the source's regular expression is built from: the
  assertions \<open>^\<close> and \<open>$\<close> (no \<open>m\<close> flag: start and end of the input), one character of a
  class or of \<open>.\<close>, the quantifier \<open>{n,}\<close> on such a character (\<open>*\<close> is \<open>{0,}\<close>) and the
  lookahead \<open>(?=...)\<close>. \<open>.\<close> matches every code unit that is not a line terminator.
\<close>

datatype charset = Dot | Class bool "(code_unit \<times> code_unit) list"

definition LineTerminator :: "code_unit \<Rightarrow> bool" where
  "LineTerminator c = (c = 0x000A \<or> c = 0x000D \<or> c = 0x2028 \<or> c = 0x2029)"

fun in_charset :: "charset \<Rightarrow> code_unit \<Rightarrow> bool" where
  "in_charset Dot c = (\<not> LineTerminator c)"
| "in_charset (Class negated ranges) c =
     (list_ex (\<lambda>(lo, hi). lo \<le> c \<and> c \<le> hi) ranges \<noteq> negated)"

datatype node =
    Bol
  | Eol
  | Chars charset
  | AtLeast nat charset
  | Lookahead "node list"

abbreviation Star :: "charset \<Rightarrow> node" where
  "Star cs \<equiv> AtLeast 0 cs"

text \<open>
  \<open>matches pattern i s\<close>: the pattern matches at index \<open>i\<close> of the input, \<open>s\<close> being the
  input from \<open>i\<close> on. \<open>test\<close> only asks whether some match exists, so the order in which a
  backtracking matcher tries the alternatives of a quantifier does not show.
\<close>

fun matches :: "node list \<Rightarrow> nat \<Rightarrow> jsstring \<Rightarrow> bool" where
  "matches [] i s = True"
| "matches (Bol # ns) i s = (i = 0 \<and> matches ns i s)"
| "matches (Eol # ns) i s = (s = [] \<and> matches ns i s)"
| "matches (Chars cs # ns) i [] = False"
| "matches (Chars cs # ns) i (c # s) = (in_charset cs c \<and> matches ns (Suc i) s)"
| "matches (AtLeast 0 cs # ns) i [] = matches ns i []"
| "matches (AtLeast 0 cs # ns) i (c # s) =
     ((in_charset cs c \<and> matches (AtLeast 0 cs # ns) (Suc i) s) \<or> matches ns i (c # s))"
| "matches (AtLeast (Suc n) cs # ns) i [] = False"
| "matches (AtLeast (Suc n) cs # ns) i (c # s) =
     (in_charset cs c \<and> matches (AtLeast n cs # ns) (Suc i) s)"
| "matches (Lookahead ms # ns) i s = (matches ms i s \<and> matches ns i s)"

text \<open>\<open>regex.test(s)\<close> of a regular expression without flags: a match at some start index.\<close>

definition regex_test :: "node list \<Rightarrow> jsstring \<Rightarrow> bool" where
  "regex_test pattern s = list_ex (\<lambda>i. matches pattern i (drop i s)) [0..<Suc (length s)]"

text \<open>\<^verbatim>\<open>/^(?=.*[a-z])(?=.*[A-Z])(?=.*\d)(?=.*[^A-Za-z0-9]).{8,}$/\<close>\<close>

definition regex :: "node list" where
  "regex =
     [Bol,
      Lookahead [Star Dot, Chars (Class False [(0x61, 0x7A)])],
      Lookahead [Star Dot, Chars (Class False [(0x41, 0x5A)])],
      Lookahead [Star Dot, Chars (Class False [(0x30, 0x39)])],
      Lookahead [Star Dot, Chars (Class True [(0x41, 0x5A), (0x61, 0x7A), (0x30, 0x39)])],
      AtLeast 8 Dot,
      Eol]"

definition passwordMeetsRequirements :: "jsstring \<Rightarrow> bool" where
  "passwordMeetsRequirements password = regex_test regex password"

text \<open>
  The password rule in the specification's words, to compare the regular expression with:
  length at least 8, a lowercase letter, an uppercase letter, a digit and a character
  outside \<open>[A-Za-z0-9]\<close>.
\<close>

definition lowercase :: "code_unit \<Rightarrow> bool" where
  "lowercase c = (0x61 \<le> c \<and> c \<le> 0x7A)"

definition uppercase :: "code_unit \<Rightarrow> bool" where
  "uppercase c = (0x41 \<le> c \<and> c \<le> 0x5A)"

definition digit :: "code_unit \<Rightarrow> bool" where
  "digit c = (0x30 \<le> c \<and> c \<le> 0x39)"

definition spec_strong_password :: "jsstring \<Rightarrow> bool" where
  "spec_strong_password p =
     (8 \<le> length p \<and> list_ex lowercase p \<and> list_ex uppercase p \<and> list_ex digit p \<and>
      list_ex (\<lambda>c. \<not> (uppercase c \<or> lowercase c \<or> digit c)) p)"

section \<open>The store\<close>

text \<open>
  The four tables the handlers query, each a list of rows in insertion order, and the
  AUTO_INCREMENT counters of \<open>users\<close> and \<open>albums\<close>. Timestamps are readings of the store's
  clock. The handlers are modelled for a store that answers every statement; the
  \<open>catch\<close> branches (status 500) belong to a store that fails and are not part of the model.
\<close>

record user_row =
  users_id :: nat
  users_username :: jsstring
  users_password_hash :: jsstring

record album_row =
  albums_id :: nat
  albums_external_id :: jsstring
  albums_title :: jsstring
  albums_artist :: jsstring
  albums_cover_url :: "jsstring option"

record user_album_row =
  user_albums_user_id :: nat
  user_albums_album_id :: nat
  user_albums_notes :: jsval
  user_albums_created_at :: nat

record track_rating_row =
  track_ratings_user_id :: nat
  track_ratings_album_id :: nat
  track_ratings_track_id :: jsstring
  track_ratings_track_name :: jsstring
  track_ratings_rating :: int
  track_ratings_updated_at :: nat

record database =
  users :: "user_row list"
  users_auto_increment :: nat
  albums :: "album_row list"
  albums_auto_increment :: nat
  user_albums :: "user_album_row list"
  track_ratings :: "track_rating_row list"

text \<open>
  Modelled from the spec: the schema is not part of the source. The specification gives
  the comparison of the \<open>username\<close> column as a case-sensitive exact match, which is
  equality of the strings; the other text columns are compared the same way.
\<close>

definition sql_eq :: "jsstring \<Rightarrow> jsstring \<Rightarrow> bool" where
  "sql_eq a b = (a = b)"

definition findUserByUsername :: "jsstring \<Rightarrow> database \<Rightarrow> user_row option" where
  "findUserByUsername username db =
     (case filter (\<lambda>r. sql_eq (users_username r) username) (users db) of
        [] \<Rightarrow> None
      | row # _ \<Rightarrow> Some row)"

text \<open>
  Modelled from the spec: the ids of \<open>users\<close> and \<open>albums\<close> are generated by the store;
  \<open>insertId\<close> is the value of the table's counter, which then advances.
\<close>

definition insert_user :: "jsstring \<Rightarrow> jsstring \<Rightarrow> database \<Rightarrow> nat \<times> database" where
  "insert_user username passwordHash db =
     (let insertId = users_auto_increment db
      in (insertId,
          db\<lparr>users := users db @
                 [\<lparr>users_id = insertId, users_username = username,
                   users_password_hash = passwordHash\<rparr>],
             users_auto_increment := Suc insertId\<rparr>))"

definition findOrCreateAlbum ::
  "jsstring \<Rightarrow> jsstring \<Rightarrow> jsstring \<Rightarrow> jsstring option \<Rightarrow> database \<Rightarrow> nat \<times> database" where
  "findOrCreateAlbum externalId title artist coverUrl db =
     (case filter (\<lambda>r. sql_eq (albums_external_id r) externalId) (albums db) of
        existing # _ \<Rightarrow> (albums_id existing, db)
      | [] \<Rightarrow>
          (let insertId = albums_auto_increment db
           in (insertId,
               db\<lparr>albums := albums db @
                      [\<lparr>albums_id = insertId, albums_external_id = externalId,
                        albums_title = title, albums_artist = artist,
                        albums_cover_url = coverUrl\<rparr>],
                  albums_auto_increment := Suc insertId\<rparr>)))"

text \<open>
  Modelled from the spec: \<open>user_albums\<close> has a unique key on \<open>(user_id, album_id)\<close>, so
  that INSERT IGNORE adds no second row for the pair; a new row has no notes and the
  current time as \<open>created_at\<close>.
\<close>

definition ensureUserAlbum :: "nat \<Rightarrow> nat \<Rightarrow> nat \<Rightarrow> database \<Rightarrow> database" where
  "ensureUserAlbum now userId albumId db =
     (if list_ex (\<lambda>r. user_albums_user_id r = userId \<and> user_albums_album_id r = albumId)
           (user_albums db)
      then db
      else db\<lparr>user_albums := user_albums db @
                 [\<lparr>user_albums_user_id = userId, user_albums_album_id = albumId,
                   user_albums_notes = JNull, user_albums_created_at = now\<rparr>]\<rparr>)"

text \<open>\<^verbatim>\<open>UPDATE user_albums SET notes = ? WHERE user_id = ? AND album_id = ?\<close>\<close>

definition update_notes :: "jsval \<Rightarrow> nat \<Rightarrow> nat \<Rightarrow> database \<Rightarrow> database" where
  "update_notes notes userId albumId db =
     db\<lparr>user_albums :=
          map (\<lambda>r. if user_albums_user_id r = userId \<and> user_albums_album_id r = albumId
                   then r\<lparr>user_albums_notes := notes\<rparr> else r)
            (user_albums db)\<rparr>"

text \<open>
  Modelled from the spec: \<open>track_ratings\<close> has a unique key on
  \<open>(user_id, album_id, track_id)\<close>, the key that ON DUPLICATE KEY UPDATE goes by. The row
  with the key keeps its \<open>track_name\<close>; only \<open>rating\<close> and \<open>updated_at\<close> are assigned.
\<close>

definition rating_key :: "nat \<Rightarrow> nat \<Rightarrow> jsstring \<Rightarrow> track_rating_row \<Rightarrow> bool" where
  "rating_key userId albumId trackId r =
     (track_ratings_user_id r = userId \<and> track_ratings_album_id r = albumId \<and>
      sql_eq (track_ratings_track_id r) trackId)"

definition upsert_track_rating ::
  "nat \<Rightarrow> nat \<Rightarrow> nat \<Rightarrow> jsstring \<Rightarrow> jsstring \<Rightarrow> int \<Rightarrow> database \<Rightarrow> database" where
  "upsert_track_rating now userId albumId trackId trackName rating db =
     (if list_ex (rating_key userId albumId trackId) (track_ratings db)
      then db\<lparr>track_ratings :=
                map (\<lambda>r. if rating_key userId albumId trackId r
                         then r\<lparr>track_ratings_rating := rating, track_ratings_updated_at := now\<rparr>
                         else r)
                  (track_ratings db)\<rparr>
      else db\<lparr>track_ratings := track_ratings db @
                 [\<lparr>track_ratings_user_id = userId, track_ratings_album_id = albumId,
                   track_ratings_track_id = trackId, track_ratings_track_name = trackName,
                   track_ratings_rating = rating, track_ratings_updated_at = now\<rparr>]\<rparr>)"

text \<open>The unique keys and generated ids of the schema, as properties of a state.\<close>

definition unique_track_ratings :: "database \<Rightarrow> bool" where
  "unique_track_ratings db =
     distinct (map (\<lambda>r. (track_ratings_user_id r, track_ratings_album_id r, track_ratings_track_id r))
                 (track_ratings db))"


section \<open>Sessions and responses\<close>

record session =
  session_userId :: "nat option"
  session_username :: "jsstring option"

text \<open>\<open>requireLogin\<close>: the user id of the session, unless \<open>!req.session.userId\<close>.\<close>

definition requireLogin :: "session \<Rightarrow> nat option" where
  "requireLogin sess =
     (case session_userId sess of None \<Rightarrow> None | Some uid \<Rightarrow> if uid = 0 then None else Some uid)"

text \<open>The rows of \<open>GET /api/user/albums\<close> and the entries of \<open>GET /api/user/ratings\<close>.\<close>

record journal_entry =
  row_external_id :: jsstring
  row_title :: jsstring
  row_artist :: jsstring
  row_cover_url :: "jsstring option"
  row_created_at :: nat
  row_notes :: jsval

record rating_entry =
  entry_trackId :: jsstring
  entry_trackName :: jsstring
  entry_rating :: int

text \<open>
  A response is \<open>res.status(n).json({error: message})\<close> or one of the success bodies,
  sent with status 200. The body of the ratings route is an object, held as the list of its
  own properties.
\<close>

datatype response =
    Fail nat string
  | LoggedIn nat jsstring
  | Saved nat
  | Done
  | AlbumRows "journal_entry list"
  | RatingMap "(jsstring \<times> rating_entry) list"

text \<open>The failures of the credential routes, under the names the specification gives them.\<close>

definition ValidationError :: response where
  "ValidationError = Fail 400 ''Username and password required''"

definition WeakPasswordError :: response where
  "WeakPasswordError =
     Fail 400 ''Password must be at least 8 characters and include uppercase, lowercase, number, and special character.''"

definition ConflictError :: response where
  "ConflictError = Fail 400 ''Username already taken''"

definition AuthError :: response where
  "AuthError = Fail 400 ''Invalid username or password''"

section \<open>The credential routes\<close>

text \<open>
  \<open>POST /api/register\<close>. \<open>bcrypt_hash\<close> is what \<open>bcrypt.hash(password, 10)\<close> returns in
  this request (the salt is drawn by the library).
\<close>

definition register ::
  "(jsstring \<Rightarrow> jsstring) \<Rightarrow> jsstring option \<Rightarrow> jsstring option \<Rightarrow> session \<Rightarrow> database
     \<Rightarrow> response \<times> session \<times> database" where
  "register bcrypt_hash username password sess db =
     (case (present username, present password) of
        (Some username, Some password) \<Rightarrow>
          if \<not> passwordMeetsRequirements password
          then (Fail 400 ''Password must be at least 8 characters and include uppercase, lowercase, number, and special character.'',
                sess, db)
          else (case findUserByUsername username db of
                  Some existing \<Rightarrow> (Fail 400 ''Username already taken'', sess, db)
                | None \<Rightarrow>
                    let passwordHash = bcrypt_hash password;
                        (insertId, db') = insert_user username passwordHash db
                    in (LoggedIn insertId username,
                        sess\<lparr>session_userId := Some insertId, session_username := Some username\<rparr>,
                        db'))
      | _ \<Rightarrow> (Fail 400 ''Username and password required'', sess, db))"


section \<open>The album routes\<close>




text \<open>\<open>POST /api/user/album-notes\<close>\<close>

definition post_user_album_notes ::
  "nat \<Rightarrow> session \<Rightarrow> jsstring option \<Rightarrow> jsstring option \<Rightarrow> jsstring option \<Rightarrow> jsstring option
     \<Rightarrow> jsval \<Rightarrow> database \<Rightarrow> response \<times> database" where
  "post_user_album_notes now sess albumExternalId albumTitle albumArtist coverUrl notes db =
     (case requireLogin sess of
        None \<Rightarrow> (Fail 401 ''Not authenticated'', db)
      | Some userId \<Rightarrow>
          (case present albumExternalId of
             None \<Rightarrow> (Fail 400 ''Missing albumExternalId'', db)
           | Some albumExternalId \<Rightarrow>
               (let (albumId, db1) =
                      findOrCreateAlbum albumExternalId
                        (or_default albumTitle (js ''Unknown album''))
                        (or_default albumArtist (js ''Unknown artist''))
                        (present coverUrl) db;
                    db2 = ensureUserAlbum now userId albumId db1;
                    db3 = update_notes (or_null notes) userId albumId db2
                in (Done, db3))))"

section \<open>The track rating routes\<close>

text \<open>
  \<open>POST /api/user/ratings\<close>. The rating column takes the number that passed the check, an
  integer from 1 to 5.
\<close>

definition post_user_ratings ::
  "nat \<Rightarrow> session \<Rightarrow> jsstring option \<Rightarrow> jsstring option \<Rightarrow> jsstring option \<Rightarrow> jsstring option
     \<Rightarrow> jsstring option \<Rightarrow> jsstring option \<Rightarrow> jsval \<Rightarrow> database \<Rightarrow> response \<times> database" where
  "post_user_ratings now sess albumExternalId albumTitle albumArtist coverUrl trackId trackName
       rating db =
     (case requireLogin sess of
        None \<Rightarrow> (Fail 401 ''Not authenticated'', db)
      | Some userId \<Rightarrow>
          (case (present albumExternalId, present trackId, present trackName, nullish rating) of
             (Some albumExternalId, Some trackId, Some trackName, False) \<Rightarrow>
               (let numericRating = Number rating
                in if \<not> Number_isInteger numericRating \<or> js_less numericRating (Finite 1)
                      \<or> js_less (Finite 5) numericRating
                   then (Fail 400 ''Rating must be an integer between 1 and 5'', db)
                   else
                     (let (albumId, db1) =
                            findOrCreateAlbum albumExternalId
                              (or_default albumTitle (js ''Unknown album''))
                              (or_default albumArtist (js ''Unknown artist''))
                              (present coverUrl) db;
                          db2 = ensureUserAlbum now userId albumId db1;
                          db3 = upsert_track_rating now userId albumId trackId trackName
                                  (case numericRating of Finite q \<Rightarrow> \<lfloor>q\<rfloor> | _ \<Rightarrow> 0) db2
                      in (Done, db3)))
           | _ \<Rightarrow> (Fail 400 ''Missing rating data'', db)))"

text \<open>
  \<open>map[key] = value\<close> on an object created by \<open>{}\<close>: the key \<open>__proto__\<close> is the accessor
  inherited from \<open>Object.prototype\<close>, whose setter replaces the prototype of the object and
  creates no own property; every other key becomes (or overwrites) an own property.
\<close>

definition assign :: "jsstring \<Rightarrow> 'v \<Rightarrow> (jsstring \<times> 'v) list \<Rightarrow> (jsstring \<times> 'v) list" where
  "assign key v obj = (if key = js ''__proto__'' then obj else AList.update key v obj)"

text \<open>\<open>GET /api/user/ratings/:externalId\<close>\<close>

definition get_user_ratings :: "session \<Rightarrow> jsstring \<Rightarrow> database \<Rightarrow> response" where
  "get_user_ratings sess externalId db =
     (case requireLogin sess of
        None \<Rightarrow> Fail 401 ''Not authenticated''
      | Some userId \<Rightarrow>
          (case filter (\<lambda>r. sql_eq (albums_external_id r) externalId) (albums db) of
             [] \<Rightarrow> RatingMap []
           | album # _ \<Rightarrow>
               (let albumId = albums_id album;
                    rows = filter (\<lambda>r. track_ratings_user_id r = userId \<and>
                                        track_ratings_album_id r = albumId)
                             (track_ratings db)
                in RatingMap
                     (foldl (\<lambda>obj row. assign (track_ratings_track_id row)
                                          \<lparr>entry_trackId = track_ratings_track_id row,
                                           entry_trackName = track_ratings_track_name row,
                                           entry_rating = track_ratings_rating row\<rparr> obj)
                        [] rows))))"

section \<open>States and requests of the examples\<close>

definition empty_database :: database where
  "empty_database =
     \<lparr>users = [], users_auto_increment = 1, albums = [], albums_auto_increment = 1,
      user_albums = [], track_ratings = []\<rparr>"

definition no_session :: session where
  "no_session = \<lparr>session_userId = None, session_username = None\<rparr>"

text \<open>The store after \<open>alice\<close> has registered, and her session.\<close>

definition alice_database :: database where
  "alice_database =
     snd (snd (register id (Some (js ''alice'')) (Some (js ''Abcdef1!'')) no_session empty_database))"

definition alice_session :: session where
  "alice_session =
     fst (snd (register id (Some (js ''alice'')) (Some (js ''Abcdef1!'')) no_session empty_database))"

text \<open>The store after \<open>alice\<close> has saved the notes \<open>great\<close> for an album.\<close>

definition noted_database :: database where
  "noted_database =
     snd (post_user_album_notes 10 alice_session (Some (js ''album-1'')) None None None
            (JStr (js ''great'')) alice_database)"

text \<open>The store after \<open>alice\<close> has rated the track whose id is \<open>__proto__\<close>.\<close>

definition proto_database :: database where
  "proto_database =
     snd (post_user_ratings 7 alice_session (Some (js ''album-1'')) None None None
            (Some (js ''__proto__'')) (Some (js ''Intro'')) (JNum (Finite 4)) alice_database)"

text \<open>The store after \<open>alice\<close> has rated a track with 3, and then with 5.\<close>

definition rated_once :: database where
  "rated_once =
     snd (post_user_ratings 7 alice_session (Some (js ''album-1'')) None None None
            (Some (js ''t1'')) (Some (js ''Intro'')) (JNum (Finite 3)) alice_database)"

definition rated_twice :: database where
  "rated_twice =
     snd (post_user_ratings 9 alice_session (Some (js ''album-1'')) None None None
            (Some (js ''t1'')) (Some (js ''Intro'')) (JNum (Finite 5)) rated_once)"

section \<open>The password rule\<close>

lemma regex_test_Bol: "regex_test (Bol # ns) s = matches ns 0 s"
proof -
  have "(\<exists>i \<in> {0..<Suc (length s)}. i = 0 \<and> matches ns i (drop i s)) = matches ns 0 s"
    by auto
  then show ?thesis
    by (simp add: regex_test_def list_ex_iff del: upt_Suc)
qed

lemma matches_Star_Eol:
  "matches [Star cs, Eol] i s = (\<forall>c \<in> set s. in_charset cs c)"
  by (induction s arbitrary: i) auto

lemma matches_AtLeast_Eol:
  "matches [AtLeast n cs, Eol] i s = (n \<le> length s \<and> (\<forall>c \<in> set s. in_charset cs c))"
proof (induction n arbitrary: i s)
  case 0
  show ?case by (simp add: matches_Star_Eol)
next
  case (Suc n)
  show ?case by (cases s) (auto simp: Suc)
qed

lemma matches_Star_Chars:
  "matches [Star Dot, Chars cs] i s =
     (\<exists>pre c post. s = pre @ c # post \<and> (\<forall>x \<in> set pre. \<not> LineTerminator x) \<and> in_charset cs c)"
proof (induction s arbitrary: i)
  case Nil
  show ?case by simp
next
  case (Cons a s)
  show ?case
  proof
    assume "matches [Star Dot, Chars cs] i (a # s)"
    then consider "\<not> LineTerminator a" "matches [Star Dot, Chars cs] (Suc i) s" | "in_charset cs a"
      by auto
    then show "\<exists>pre c post. a # s = pre @ c # post \<and> (\<forall>x \<in> set pre. \<not> LineTerminator x) \<and> in_charset cs c"
    proof cases
      case 1
      then obtain pre c post where "s = pre @ c # post" "\<forall>x \<in> set pre. \<not> LineTerminator x" "in_charset cs c"
        using Cons.IH by blast
      with 1 have "a # s = (a # pre) @ c # post \<and> (\<forall>x \<in> set (a # pre). \<not> LineTerminator x) \<and> in_charset cs c"
        by simp
      then show ?thesis by blast
    next
      case 2
      then have "a # s = [] @ a # s \<and> (\<forall>x \<in> set []. \<not> LineTerminator x) \<and> in_charset cs a"
        by simp
      then show ?thesis by blast
    qed
  next
    assume "\<exists>pre c post. a # s = pre @ c # post \<and> (\<forall>x \<in> set pre. \<not> LineTerminator x) \<and> in_charset cs c"
    then obtain pre c post where
      eq: "a # s = pre @ c # post" and pre: "\<forall>x \<in> set pre. \<not> LineTerminator x" and c: "in_charset cs c"
      by blast
    show "matches [Star Dot, Chars cs] i (a # s)"
    proof (cases pre)
      case Nil
      with eq c show ?thesis by simp
    next
      case (Cons b pre')
      with eq pre have "a = b" "s = pre' @ c # post" "\<not> LineTerminator a" "\<forall>x \<in> set pre'. \<not> LineTerminator x"
        by auto
      with c have "matches [Star Dot, Chars cs] (Suc i) s"
        using Cons.IH by blast
      with \<open>\<not> LineTerminator a\<close> show ?thesis by simp
    qed
  qed
qed

lemma lookahead_no_LineTerminator:
  assumes "\<forall>x \<in> set s. \<not> LineTerminator x"
  shows "matches [Star Dot, Chars cs] i s = (\<exists>c \<in> set s. in_charset cs c)"
proof
  assume "matches [Star Dot, Chars cs] i s"
  then show "\<exists>c \<in> set s. in_charset cs c"
    by (auto simp: matches_Star_Chars)
next
  assume "\<exists>c \<in> set s. in_charset cs c"
  then obtain c where "c \<in> set s" "in_charset cs c" by blast
  then obtain pre post where "s = pre @ c # post"
    by (auto dest: split_list)
  with assms \<open>in_charset cs c\<close> show "matches [Star Dot, Chars cs] i s"
    unfolding matches_Star_Chars by auto
qed

lemma passwordMeetsRequirements_iff:
  "passwordMeetsRequirements p =
     (spec_strong_password p \<and> (\<forall>c \<in> set p. \<not> LineTerminator c))"
proof (cases "\<forall>c \<in> set p. \<not> LineTerminator c")
  case True
  have "passwordMeetsRequirements p =
          (matches [Star Dot, Chars (Class False [(0x61, 0x7A)])] 0 p \<and>
           matches [Star Dot, Chars (Class False [(0x41, 0x5A)])] 0 p \<and>
           matches [Star Dot, Chars (Class False [(0x30, 0x39)])] 0 p \<and>
           matches [Star Dot, Chars (Class True [(0x41, 0x5A), (0x61, 0x7A), (0x30, 0x39)])] 0 p \<and>
           matches [AtLeast 8 Dot, Eol] 0 p)"
    by (simp add: passwordMeetsRequirements_def regex_def regex_test_Bol)
  also have "\<dots> = spec_strong_password p"
    using True
    by (auto simp: lookahead_no_LineTerminator matches_AtLeast_Eol spec_strong_password_def
        list_ex_iff lowercase_def uppercase_def digit_def)
  finally show ?thesis using True by simp
next
  case False
  have "\<not> matches [AtLeast 8 Dot, Eol] 0 p"
    using False by (auto simp: matches_AtLeast_Eol)
  then have "\<not> passwordMeetsRequirements p"
    by (simp add: passwordMeetsRequirements_def regex_def regex_test_Bol)
  with False show ?thesis by simp
qed


section \<open>Registration and login\<close>

lemma js_not_Nil: "(js s = []) = (s = [])"
  by (simp add: js_def)

lemma register_cases:
  "register h (Some u) (Some p) sess db =
     (if u = [] \<or> p = [] then (ValidationError, sess, db)
      else if \<not> passwordMeetsRequirements p then (WeakPasswordError, sess, db)
      else case findUserByUsername u db of
             Some existing \<Rightarrow> (ConflictError, sess, db)
           | None \<Rightarrow>
               (LoggedIn (users_auto_increment db) u,
                sess\<lparr>session_userId := Some (users_auto_increment db), session_username := Some u\<rparr>,
                snd (insert_user u (h p) db)))"
  by (simp add: register_def present_def ValidationError_def WeakPasswordError_def
      ConflictError_def insert_user_def Let_def split: option.splits)



lemma errors_distinct:
  "WeakPasswordError \<noteq> ValidationError" "ValidationError \<noteq> WeakPasswordError"
  "WeakPasswordError \<noteq> ConflictError" "ConflictError \<noteq> WeakPasswordError"
  "ConflictError \<noteq> ValidationError" "ValidationError \<noteq> ConflictError"
  "AuthError \<noteq> ValidationError" "ValidationError \<noteq> AuthError"
  "WeakPasswordError \<noteq> LoggedIn i n" "LoggedIn i n \<noteq> WeakPasswordError"
  "ConflictError \<noteq> LoggedIn i n" "LoggedIn i n \<noteq> ConflictError"
  by (simp_all add: WeakPasswordError_def ValidationError_def ConflictError_def AuthError_def)

lemma example_passwords:
  "passwordMeetsRequirements (js ''Abcdef1!'')" "\<not> passwordMeetsRequirements (js ''abcdefg1'')"
  "\<not> passwordMeetsRequirements (js ''abc'')"
  by code_simp+

lemma alice_database_eq:
  "alice_database =
     \<lparr>users = [\<lparr>users_id = 1, users_username = js ''alice'',
                users_password_hash = js ''Abcdef1!''\<rparr>],
      users_auto_increment = 2, albums = [], albums_auto_increment = 1,
      user_albums = [], track_ratings = []\<rparr>"
  by code_simp

lemma alice_session_eq:
  "alice_session = \<lparr>session_userId = Some 1, session_username = Some (js ''alice'')\<rparr>"
  by code_simp

text \<open>
  C1, as amended. For every non-empty username and every non-empty password without a line
  terminator, \<open>register\<close> fails with \<open>WeakPasswordError\<close> exactly when the password does
  not satisfy all of: length at least 8, a lowercase letter, an uppercase letter, a digit and
  a character outside \<open>[A-Za-z0-9]\<close>; the session and the store are then unchanged. In
  particular \<open>abcdefg1\<close> is rejected and \<open>Abcdef1!\<close> is not: with a username that is free
  the registration succeeds.
\<close>

theorem register_WeakPasswordError_iff:
  "u \<noteq> [] \<Longrightarrow> p \<noteq> [] \<Longrightarrow> \<forall>c \<in> set p. \<not> LineTerminator c \<Longrightarrow>
     (fst (register h (Some u) (Some p) sess db) = WeakPasswordError) = (\<not> spec_strong_password p) \<and>
     (\<not> spec_strong_password p \<longrightarrow>
        register h (Some u) (Some p) sess db = (WeakPasswordError, sess, db)) \<and>
     register h (Some u) (Some (js ''abcdefg1'')) sess db = (WeakPasswordError, sess, db) \<and>
     fst (register h (Some u) (Some (js ''Abcdef1!'')) sess db) \<noteq> WeakPasswordError \<and>
     (findUserByUsername u db = None \<longrightarrow>
        fst (register h (Some u) (Some (js ''Abcdef1!'')) sess db)
          = LoggedIn (users_auto_increment db) u)"
  using example_passwords
  by (simp add: register_cases passwordMeetsRequirements_iff js_not_Nil errors_distinct
      split: option.splits)

text \<open>C1: the amended statement at the user \<open>bob\<close> and the empty store.\<close>

theorem register_WeakPasswordError_iff_witness:
  "fst (register id (Some (js ''bob'')) (Some (js ''Abcdef1!'')) no_session empty_database)
     = LoggedIn 1 (js ''bob'') \<and>
   spec_strong_password (js ''Abcdef1!'') \<and>
   register id (Some (js ''bob'')) (Some (js ''abcdefg1'')) no_session empty_database
     = (WeakPasswordError, no_session, empty_database)"
proof -
  have u: "js ''bob'' \<noteq> []" and p: "js ''Abcdef1!'' \<noteq> []"
    by (simp_all add: js_def)
  have l: "\<forall>c \<in> set (js ''Abcdef1!''). \<not> LineTerminator c"
    by (simp add: js_def LineTerminator_def)
  have s: "spec_strong_password (js ''Abcdef1!'')"
    by code_simp
  have n: "findUserByUsername (js ''bob'') empty_database = None"
    "users_auto_increment empty_database = 1"
    by (simp_all add: findUserByUsername_def empty_database_def)
  note w = register_WeakPasswordError_iff [OF u p l, of id no_session empty_database]
  from w n have "fst (register id (Some (js ''bob'')) (Some (js ''Abcdef1!'')) no_session
                        empty_database) = LoggedIn 1 (js ''bob'')"
    by simp
  moreover from w have "register id (Some (js ''bob'')) (Some (js ''abcdefg1'')) no_session
                          empty_database = (WeakPasswordError, no_session, empty_database)"
    by blast
  ultimately show ?thesis
    using s by blast
qed

text \<open>
  C1 as stated fails. The empty password does not satisfy the rule, and \<open>register\<close>
  answers it with "Username and password required", not with \<open>WeakPasswordError\<close>; so it
  answers the weak password \<open>abc\<close> sent with an empty username. The password
  \<open>Abcdef1!\<close> followed by a line feed satisfies every condition of the rule, and
  \<open>register\<close> fails with \<open>WeakPasswordError\<close>: \<open>.\<close> does not match a line terminator.
\<close>

theorem register_WeakPasswordError_counterexample:
  "\<not> spec_strong_password [] \<and>
   fst (register id (Some (js ''bob'')) (Some []) no_session empty_database) \<noteq> WeakPasswordError \<and>
   \<not> spec_strong_password (js ''abc'') \<and>
   fst (register id (Some []) (Some (js ''abc'')) no_session empty_database) \<noteq> WeakPasswordError \<and>
   spec_strong_password (js ''Abcdef1!'' @ [0x000A]) \<and>
   fst (register id (Some (js ''bob'')) (Some (js ''Abcdef1!'' @ [0x000A])) no_session empty_database)
     = WeakPasswordError"
proof -
  have "\<not> spec_strong_password []"
    by (simp add: spec_strong_password_def)
  moreover have "\<not> spec_strong_password (js ''abc'')"
    by (simp add: spec_strong_password_def js_def)
  moreover have "spec_strong_password (js ''Abcdef1!'' @ [0x000A])"
    by code_simp
  moreover have "\<not> passwordMeetsRequirements (js ''Abcdef1!'' @ [0x000A])"
    by (simp add: passwordMeetsRequirements_iff LineTerminator_def)
  ultimately show ?thesis
    by (simp add: register_cases js_not_Nil errors_distinct)
qed









section \<open>Albums\<close>

lemma findOrCreateAlbum_found:
  "filter (\<lambda>r. albums_external_id r = e) (albums db) = row # rows \<Longrightarrow>
     findOrCreateAlbum e t a c db = (albums_id row, db)"
  by (simp add: findOrCreateAlbum_def sql_eq_def)

lemma findOrCreateAlbum_created:
  "filter (\<lambda>r. albums_external_id r = e) (albums db) = [] \<Longrightarrow>
     findOrCreateAlbum e t a c db =
       (albums_auto_increment db,
        db\<lparr>albums := albums db @
               [\<lparr>albums_id = albums_auto_increment db, albums_external_id = e,
                 albums_title = t, albums_artist = a, albums_cover_url = c\<rparr>],
           albums_auto_increment := Suc (albums_auto_increment db)\<rparr>)"
  by (simp add: findOrCreateAlbum_def sql_eq_def Let_def)

lemma findOrCreateAlbum_again:
  assumes "findOrCreateAlbum e t a c db = (i, db1)" and "albums db' = albums db1"
  shows "findOrCreateAlbum e t' a' c' db' = (i, db')"
proof (cases "filter (\<lambda>r. albums_external_id r = e) (albums db)")
  case Nil
  with assms(1) have "filter (\<lambda>r. albums_external_id r = e) (albums db1) =
      [\<lparr>albums_id = i, albums_external_id = e, albums_title = t, albums_artist = a,
        albums_cover_url = c\<rparr>]"
    by (auto simp: findOrCreateAlbum_created)
  with assms(2) show ?thesis
    by (simp add: findOrCreateAlbum_found)
next
  case (Cons row rows)
  with assms(1) have "i = albums_id row" "db1 = db"
    by (simp_all add: findOrCreateAlbum_found)
  with Cons assms(2) show ?thesis
    by (simp add: findOrCreateAlbum_found)
qed

text \<open>
  C3. Two calls of \<open>findOrCreateAlbum\<close> with the same external id and any titles, artists
  and cover URLs return the same album id, and the second call leaves the store as the
  first one left it; when no album had the external id before, the one row that has it
  afterwards holds the title, artist and cover URL of the first call.
\<close>

theorem findOrCreateAlbum_first_write_wins:
  "findOrCreateAlbum e t1 a1 c1 db = (id1, db1) \<Longrightarrow>
   findOrCreateAlbum e t2 a2 c2 db1 = (id2, db2) \<Longrightarrow>
     id2 = id1 \<and> db2 = db1 \<and>
     filter (\<lambda>r. albums_external_id r = e) (albums db2) =
       (if filter (\<lambda>r. albums_external_id r = e) (albums db) = []
        then [\<lparr>albums_id = id1, albums_external_id = e, albums_title = t1,
               albums_artist = a1, albums_cover_url = c1\<rparr>]
        else filter (\<lambda>r. albums_external_id r = e) (albums db))"
proof -
  assume 1: "findOrCreateAlbum e t1 a1 c1 db = (id1, db1)"
    and 2: "findOrCreateAlbum e t2 a2 c2 db1 = (id2, db2)"
  from findOrCreateAlbum_again [OF 1 refl, of t2 a2 c2] 2 have same: "id2 = id1" "db2 = db1"
    by simp_all
  have "filter (\<lambda>r. albums_external_id r = e) (albums db1) =
       (if filter (\<lambda>r. albums_external_id r = e) (albums db) = []
        then [\<lparr>albums_id = id1, albums_external_id = e, albums_title = t1,
               albums_artist = a1, albums_cover_url = c1\<rparr>]
        else filter (\<lambda>r. albums_external_id r = e) (albums db))"
  proof (cases "filter (\<lambda>r. albums_external_id r = e) (albums db)")
    case Nil
    with 1 show ?thesis by (auto simp: findOrCreateAlbum_created)
  next
    case (Cons row rows)
    with 1 show ?thesis by (auto simp: findOrCreateAlbum_found)
  qed
  with same show ?thesis by simp
qed

text \<open>C3: an album first seen with the title \<open>Blue\<close> and then with another title.\<close>

theorem findOrCreateAlbum_first_write_wins_witness:
  "fst (findOrCreateAlbum (js ''album-1'') (js ''Other'') (js ''Someone'') (Some (js ''u''))
          (snd (findOrCreateAlbum (js ''album-1'') (js ''Blue'') (js ''Joni'') None empty_database)))
     = fst (findOrCreateAlbum (js ''album-1'') (js ''Blue'') (js ''Joni'') None empty_database) \<and>
   albums (snd (findOrCreateAlbum (js ''album-1'') (js ''Other'') (js ''Someone'') (Some (js ''u''))
          (snd (findOrCreateAlbum (js ''album-1'') (js ''Blue'') (js ''Joni'') None empty_database))))
     = [\<lparr>albums_id = 1, albums_external_id = js ''album-1'', albums_title = js ''Blue'',
         albums_artist = js ''Joni'', albums_cover_url = None\<rparr>]"
  using findOrCreateAlbum_first_write_wins
    [where e = "js ''album-1''" and ?t1.0 = "js ''Blue''" and ?a1.0 = "js ''Joni''" and ?c1.0 = None
      and db = empty_database and ?t2.0 = "js ''Other''" and ?a2.0 = "js ''Someone''"
      and ?c2.0 = "Some (js ''u'')", OF surjective_pairing surjective_pairing]
  by (simp add: findOrCreateAlbum_created empty_database_def)

section \<open>Ratings\<close>

lemma post_user_ratings_cases:
  assumes "requireLogin sess = Some userId" "present albumExternalId = Some e"
    "present trackId = Some t" "present trackName = Some n" "\<not> nullish r"
  shows "post_user_ratings now sess albumExternalId albumTitle albumArtist coverUrl trackId trackName
           r db =
     (if \<not> Number_isInteger (Number r) \<or> js_less (Number r) (Finite 1)
         \<or> js_less (Finite 5) (Number r)
      then (Fail 400 ''Rating must be an integer between 1 and 5'', db)
      else (Done,
            upsert_track_rating now userId
              (fst (findOrCreateAlbum e (or_default albumTitle (js ''Unknown album''))
                      (or_default albumArtist (js ''Unknown artist'')) (present coverUrl) db))
              t n (case Number r of Finite q \<Rightarrow> \<lfloor>q\<rfloor> | _ \<Rightarrow> 0)
              (ensureUserAlbum now userId
                 (fst (findOrCreateAlbum e (or_default albumTitle (js ''Unknown album''))
                         (or_default albumArtist (js ''Unknown artist'')) (present coverUrl) db))
                 (snd (findOrCreateAlbum e (or_default albumTitle (js ''Unknown album''))
                         (or_default albumArtist (js ''Unknown artist'')) (present coverUrl) db)))))"
  using assms by (simp add: post_user_ratings_def Let_def split: prod.splits)

lemma upsert_track_rating_stored:
  "\<exists>row \<in> set (track_ratings (upsert_track_rating now u a t n r db)).
      rating_key u a t row \<and> track_ratings_rating row = r \<and> track_ratings_updated_at row = now"
proof (cases "list_ex (rating_key u a t) (track_ratings db)")
  case True
  then obtain row where row: "row \<in> set (track_ratings db)" "rating_key u a t row"
    by (auto simp: list_ex_iff)
  let ?row = "row\<lparr>track_ratings_rating := r, track_ratings_updated_at := now\<rparr>"
  from True row have "?row \<in> set (track_ratings (upsert_track_rating now u a t n r db))"
    by (force simp: upsert_track_rating_def)
  moreover from row have "rating_key u a t ?row"
    by (simp add: rating_key_def)
  ultimately show ?thesis by force
next
  case False
  then show ?thesis
    by (simp add: upsert_track_rating_def rating_key_def sql_eq_def)
qed

lemma requireLogin_alice: "requireLogin alice_session = Some 1"
  by (simp add: requireLogin_def alice_session_eq)

lemma present_examples:
  "present (Some (js ''album-1'')) = Some (js ''album-1'')"
  "present (Some (js ''album-2'')) = Some (js ''album-2'')"
  "present (Some (js ''t1'')) = Some (js ''t1'')"
  "present (Some (js ''Intro'')) = Some (js ''Intro'')"
  "present (Some (js ''Blue'')) = Some (js ''Blue'')"
  "present (Some (js ''Joni'')) = Some (js ''Joni'')"
  by (simp_all add: present_def js_def)

text \<open>
  C5. For a logged-in user and a request that carries the album id, the track id and the
  track name, the ratings 0, 6 and 3.5 are answered with status 400, "Rating must be an
  integer between 1 and 5", and leave the store unchanged; the ratings 1 and 5 are accepted.
\<close>

theorem post_user_ratings_boundaries:
  assumes "requireLogin sess = Some userId" "present albumExternalId = Some e"
    "present trackId = Some t" "present trackName = Some n"
  shows
    "post_user_ratings now sess albumExternalId albumTitle albumArtist coverUrl trackId trackName
       (JNum (Finite 0)) db = (Fail 400 ''Rating must be an integer between 1 and 5'', db) \<and>
     post_user_ratings now sess albumExternalId albumTitle albumArtist coverUrl trackId trackName
       (JNum (Finite 6)) db = (Fail 400 ''Rating must be an integer between 1 and 5'', db) \<and>
     post_user_ratings now sess albumExternalId albumTitle albumArtist coverUrl trackId trackName
       (JNum (Finite (7 / 2))) db = (Fail 400 ''Rating must be an integer between 1 and 5'', db) \<and>
     fst (post_user_ratings now sess albumExternalId albumTitle albumArtist coverUrl trackId
            trackName (JNum (Finite 1)) db) = Done \<and>
     fst (post_user_ratings now sess albumExternalId albumTitle albumArtist coverUrl trackId
            trackName (JNum (Finite 5)) db) = Done"
proof -
  have "\<lfloor>7 / 2 :: rat\<rfloor> = 3"
    by (rule floor_unique) simp_all
  then have "\<not> Number_isInteger (Finite (7 / 2))"
    by (simp add: Number_isInteger_def)
  then show ?thesis
    by (simp add: post_user_ratings_cases [OF assms] Number_isInteger_def)
qed

text \<open>C5: the five ratings sent by \<open>alice\<close>.\<close>

theorem post_user_ratings_boundaries_witness:
  "post_user_ratings 7 alice_session (Some (js ''album-1'')) None None None (Some (js ''t1''))
     (Some (js ''Intro'')) (JNum (Finite 0)) alice_database
     = (Fail 400 ''Rating must be an integer between 1 and 5'', alice_database) \<and>
   post_user_ratings 7 alice_session (Some (js ''album-1'')) None None None (Some (js ''t1''))
     (Some (js ''Intro'')) (JNum (Finite 6)) alice_database
     = (Fail 400 ''Rating must be an integer between 1 and 5'', alice_database) \<and>
   post_user_ratings 7 alice_session (Some (js ''album-1'')) None None None (Some (js ''t1''))
     (Some (js ''Intro'')) (JNum (Finite (7 / 2))) alice_database
     = (Fail 400 ''Rating must be an integer between 1 and 5'', alice_database) \<and>
   fst (post_user_ratings 7 alice_session (Some (js ''album-1'')) None None None (Some (js ''t1''))
     (Some (js ''Intro'')) (JNum (Finite 1)) alice_database) = Done \<and>
   fst (post_user_ratings 7 alice_session (Some (js ''album-1'')) None None None (Some (js ''t1''))
     (Some (js ''Intro'')) (JNum (Finite 5)) alice_database) = Done"
  by (rule post_user_ratings_boundaries
      [OF requireLogin_alice present_examples(1) present_examples(3) present_examples(4)])

text \<open>
  C9. For a logged-in user and a request that carries the album id, the track id and the
  track name, a rating sent as a string whose \<open>Number\<close> value is an integer \<open>k\<close> from 1 to 5
  is handled as the number \<open>k\<close> is: the request is accepted and the row of the track holds
  the rating \<open>k\<close>.
\<close>

theorem post_user_ratings_numeric_string:
  assumes "requireLogin sess = Some userId" "present albumExternalId = Some e"
    "present trackId = Some t" "present trackName = Some n"
    and "Number (JStr s) = Finite (of_int k)" "1 \<le> k" "k \<le> 5"
    and "albumId = fst (findOrCreateAlbum e (or_default albumTitle (js ''Unknown album''))
                          (or_default albumArtist (js ''Unknown artist'')) (present coverUrl) db)"
  shows
    "post_user_ratings now sess albumExternalId albumTitle albumArtist coverUrl trackId trackName
       (JStr s) db =
     post_user_ratings now sess albumExternalId albumTitle albumArtist coverUrl trackId trackName
       (JNum (Finite (of_int k))) db \<and>
     fst (post_user_ratings now sess albumExternalId albumTitle albumArtist coverUrl trackId trackName
       (JStr s) db) = Done \<and>
     (\<exists>row \<in> set (track_ratings (snd (post_user_ratings now sess albumExternalId albumTitle
                     albumArtist coverUrl trackId trackName (JStr s) db))).
        rating_key userId albumId t row \<and> track_ratings_rating row = k)"
proof -
  have ok: "Number_isInteger (Finite (of_int k))" "\<not> js_less (Finite (of_int k)) (Finite 1)"
    "\<not> js_less (Finite 5) (Finite (of_int k))"
    using assms(6,7) by (simp_all add: Number_isInteger_def)
  have str: "post_user_ratings now sess albumExternalId albumTitle albumArtist coverUrl trackId
       trackName (JStr s) db =
     (Done, upsert_track_rating now userId albumId t n k
              (ensureUserAlbum now userId albumId
                 (snd (findOrCreateAlbum e (or_default albumTitle (js ''Unknown album''))
                         (or_default albumArtist (js ''Unknown artist'')) (present coverUrl) db))))"
    using ok assms(5,8)
    by (simp add: post_user_ratings_cases [OF assms(1-4)] del: Number.simps)
  have num: "post_user_ratings now sess albumExternalId albumTitle albumArtist coverUrl trackId
       trackName (JNum (Finite (of_int k))) db =
     (Done, upsert_track_rating now userId albumId t n k
              (ensureUserAlbum now userId albumId
                 (snd (findOrCreateAlbum e (or_default albumTitle (js ''Unknown album''))
                         (or_default albumArtist (js ''Unknown artist'')) (present coverUrl) db))))"
    using ok assms(8)
    by (simp add: post_user_ratings_cases [OF assms(1-4)])
  have "\<exists>row \<in> set (track_ratings (snd (post_user_ratings now sess albumExternalId albumTitle
                     albumArtist coverUrl trackId trackName (JStr s) db))).
        rating_key userId albumId t row \<and> track_ratings_rating row = k"
    unfolding str snd_conv using upsert_track_rating_stored [of now userId albumId t n k] by blast
  with str num show ?thesis
    by simp
qed

lemma StringToNumber_3: "StringToNumber (js ''3'') = Finite 3"
  by code_simp

lemma StringToNumber_examples:
  "StringToNumber (js '' 5 '') = Finite 5"
  "StringToNumber (js ''0x5'') = Finite 5"
  "StringToNumber (js ''3.5'') = Finite (7 / 2)"
  by code_simp+

text \<open>C9: \<open>alice\<close> rates a track with the string \<open>3\<close>.\<close>

theorem post_user_ratings_numeric_string_witness:
  "post_user_ratings 7 alice_session (Some (js ''album-1'')) None None None (Some (js ''t1''))
     (Some (js ''Intro'')) (JStr (js ''3'')) alice_database =
   post_user_ratings 7 alice_session (Some (js ''album-1'')) None None None (Some (js ''t1''))
     (Some (js ''Intro'')) (JNum (Finite 3)) alice_database \<and>
   fst (post_user_ratings 7 alice_session (Some (js ''album-1'')) None None None (Some (js ''t1''))
     (Some (js ''Intro'')) (JStr (js ''3'')) alice_database) = Done"
proof -
  have n: "Number (JStr (js ''3'')) = Finite (of_int 3)"
    by (simp add: StringToNumber_3)
  note p = present_examples(1) present_examples(3) present_examples(4)
  have k: "(1::int) \<le> 3" "(3::int) \<le> 5"
    by simp_all
  note w = post_user_ratings_numeric_string
      [where now = 7 and albumTitle = None and albumArtist = None and coverUrl = None
         and db = alice_database, OF requireLogin_alice p n k refl]
  from w have "post_user_ratings 7 alice_session (Some (js ''album-1'')) None None None
       (Some (js ''t1'')) (Some (js ''Intro'')) (JStr (js ''3'')) alice_database =
     post_user_ratings 7 alice_session (Some (js ''album-1'')) None None None (Some (js ''t1''))
       (Some (js ''Intro'')) (JNum (Finite (of_int 3))) alice_database"
    by (rule conjunct1)
  moreover from w have "fst (post_user_ratings 7 alice_session (Some (js ''album-1'')) None None
       None (Some (js ''t1'')) (Some (js ''Intro'')) (JStr (js ''3'')) alice_database) = Done"
    by (rule conjunct1 [OF conjunct2])
  ultimately show ?thesis
    by simp
qed

section \<open>Notes\<close>

lemma user_albums_ensureUserAlbum:
  "\<exists>row \<in> set (user_albums (ensureUserAlbum now u a db)).
      user_albums_user_id row = u \<and> user_albums_album_id row = a"
  by (auto simp: ensureUserAlbum_def list_ex_iff)

lemma user_albums_update_notes:
  "user_albums (update_notes v u a db) =
     map (\<lambda>r. if user_albums_user_id r = u \<and> user_albums_album_id r = a
              then r\<lparr>user_albums_notes := v\<rparr> else r) (user_albums db)"
  by (simp add: update_notes_def)

text \<open>
  C10. For a logged-in user and a request that carries the album id,
  \<open>POST /api/user/album-notes\<close> succeeds, the row of \<open>user_albums\<close> for the user and the album
  exists afterwards, and every such row holds the notes of the request when they are truthy
  and NULL otherwise: a request whose notes are omitted, \<open>null\<close>, the empty string, 0 or
  \<open>false\<close> clears the notes saved before.
\<close>

theorem post_user_album_notes_overwrites:
  assumes "requireLogin sess = Some userId" "present albumExternalId = Some e"
    and "albumId = fst (findOrCreateAlbum e (or_default albumTitle (js ''Unknown album''))
                          (or_default albumArtist (js ''Unknown artist'')) (present coverUrl) db)"
    and "post_user_album_notes now sess albumExternalId albumTitle albumArtist coverUrl notes db
           = (res, db')"
  shows
    "res = Done \<and>
     (\<exists>row \<in> set (user_albums db').
        user_albums_user_id row = userId \<and> user_albums_album_id row = albumId) \<and>
     (\<forall>row \<in> set (user_albums db').
        user_albums_user_id row = userId \<and> user_albums_album_id row = albumId \<longrightarrow>
          user_albums_notes row = (if truthy notes then notes else JNull)) \<and>
     \<not> truthy JUndefined \<and> \<not> truthy JNull \<and> \<not> truthy (JStr []) \<and>
     \<not> truthy (JNum (Finite 0)) \<and> \<not> truthy (JBool False)"
proof -
  let ?db1 = "snd (findOrCreateAlbum e (or_default albumTitle (js ''Unknown album''))
                     (or_default albumArtist (js ''Unknown artist'')) (present coverUrl) db)"
  from assms have res: "res = Done"
    and db': "db' = update_notes (or_null notes) userId albumId (ensureUserAlbum now userId albumId ?db1)"
    by (auto simp: post_user_album_notes_def Let_def split: prod.splits)
  obtain row where row: "row \<in> set (user_albums (ensureUserAlbum now userId albumId ?db1))"
    "user_albums_user_id row = userId" "user_albums_album_id row = albumId"
    using user_albums_ensureUserAlbum by blast
  let ?f = "\<lambda>r. if user_albums_user_id r = userId \<and> user_albums_album_id r = albumId
                then r\<lparr>user_albums_notes := or_null notes\<rparr> else r"
  from row(1) have "?f row \<in> ?f ` set (user_albums (ensureUserAlbum now userId albumId ?db1))"
    by (rule imageI)
  then have mem: "?f row \<in> set (user_albums db')"
    unfolding db' user_albums_update_notes set_map .
  have "user_albums_user_id (?f row) = userId \<and> user_albums_album_id (?f row) = albumId"
    using row(2,3) by simp
  with mem have ex: "\<exists>row \<in> set (user_albums db').
        user_albums_user_id row = userId \<and> user_albums_album_id row = albumId"
    by (rule bexI [rotated])
  have all: "\<forall>row \<in> set (user_albums db').
        user_albums_user_id row = userId \<and> user_albums_album_id row = albumId \<longrightarrow>
          user_albums_notes row = (if truthy notes then notes else JNull)"
  proof (intro ballI impI)
    fix r
    assume r: "r \<in> set (user_albums db')"
      and key: "user_albums_user_id r = userId \<and> user_albums_album_id r = albumId"
    from r obtain x where x: "r = ?f x"
      unfolding db' user_albums_update_notes set_map by blast
    show "user_albums_notes r = (if truthy notes then notes else JNull)"
    proof (cases "user_albums_user_id x = userId \<and> user_albums_album_id x = albumId")
      case True
      with x show ?thesis by (simp add: or_null_def)
    next
      case False
      with x have "r = x" by simp
      with key False show ?thesis by simp
    qed
  qed
  from res ex all show ?thesis by simp
qed

text \<open>
  C10: \<open>alice\<close> has saved the notes \<open>great\<close>; a request without notes for the same album
  sets them to NULL.
\<close>

theorem post_user_album_notes_overwrites_witness:
  "list_ex (\<lambda>row. user_albums_user_id row = 1 \<and> user_albums_notes row = JStr (js ''great''))
     (user_albums noted_database) \<and>
   fst (post_user_album_notes 20 alice_session (Some (js ''album-1'')) None None None JUndefined
          noted_database) = Done \<and>
   (\<exists>row \<in> set (user_albums (snd (post_user_album_notes 20 alice_session (Some (js ''album-1''))
                                      None None None JUndefined noted_database))).
      user_albums_user_id row = 1 \<and> user_albums_notes row = JNull)"
proof -
  let ?db' = "snd (post_user_album_notes 20 alice_session (Some (js ''album-1'')) None None None
                     JUndefined noted_database)"
  let ?albumId = "fst (findOrCreateAlbum (js ''album-1'') (or_default None (js ''Unknown album''))
                         (or_default None (js ''Unknown artist'')) (present None) noted_database)"
  note w = post_user_album_notes_overwrites
    [where now = 20 and albumTitle = None and albumArtist = None and coverUrl = None
       and ?notes = JUndefined and db = noted_database,
      OF requireLogin_alice present_examples(1) refl surjective_pairing]
  have before: "list_ex (\<lambda>row. user_albums_user_id row = 1 \<and>
                   user_albums_notes row = JStr (js ''great'')) (user_albums noted_database)"
    by code_simp
  from w have accepted: "fst (post_user_album_notes 20 alice_session (Some (js ''album-1'')) None None
                            None JUndefined noted_database) = Done"
    by (rule conjunct1)
  from w obtain row where row: "row \<in> set (user_albums ?db')" "user_albums_user_id row = 1"
      "user_albums_album_id row = ?albumId"
    by blast
  from w have "\<forall>row \<in> set (user_albums ?db').
      user_albums_user_id row = 1 \<and> user_albums_album_id row = ?albumId \<longrightarrow>
        user_albums_notes row = (if truthy JUndefined then JUndefined else JNull)"
    by blast
  with row have "user_albums_notes row = JNull"
    by simp
  with row have after: "\<exists>row \<in> set (user_albums ?db').
      user_albums_user_id row = 1 \<and> user_albums_notes row = JNull"
    by blast
  from before accepted after show ?thesis
    by blast
qed

section \<open>What each statement leaves alone\<close>

lemma findOrCreateAlbum_other_tables:
  "user_albums (snd (findOrCreateAlbum e t a c db)) = user_albums db"
  "track_ratings (snd (findOrCreateAlbum e t a c db)) = track_ratings db"
  by (simp_all add: findOrCreateAlbum_def Let_def split: list.splits)

lemma ensureUserAlbum_other_tables:
  "albums (ensureUserAlbum now u a db) = albums db"
  "albums_auto_increment (ensureUserAlbum now u a db) = albums_auto_increment db"
  "track_ratings (ensureUserAlbum now u a db) = track_ratings db"
  by (simp_all add: ensureUserAlbum_def)

lemma upsert_track_rating_other_tables:
  "albums (upsert_track_rating now u a t n r db) = albums db"
  "albums_auto_increment (upsert_track_rating now u a t n r db) = albums_auto_increment db"
  "user_albums (upsert_track_rating now u a t n r db) = user_albums db"
  by (simp_all add: upsert_track_rating_def)

section \<open>One row per rating key\<close>

lemma filter_map_update:
  assumes "\<And>x. P (g x) = P x"
  shows "filter P (map (\<lambda>x. if P x then g x else x) xs) = map g (filter P xs)"
  by (induction xs) (simp_all add: assms)

lemma rating_key_update:
  "rating_key u a t (row\<lparr>track_ratings_rating := r, track_ratings_updated_at := now\<rparr>)
     = rating_key u a t row"
  by (simp add: rating_key_def)

lemma filter_rating_key_upsert:
  "filter (rating_key u a t) (track_ratings (upsert_track_rating now u a t n r db)) =
     (if list_ex (rating_key u a t) (track_ratings db)
      then map (\<lambda>row. row\<lparr>track_ratings_rating := r, track_ratings_updated_at := now\<rparr>)
             (filter (rating_key u a t) (track_ratings db))
      else [\<lparr>track_ratings_user_id = u, track_ratings_album_id = a, track_ratings_track_id = t,
              track_ratings_track_name = n, track_ratings_rating = r,
              track_ratings_updated_at = now\<rparr>])"
proof (cases "list_ex (rating_key u a t) (track_ratings db)")
  case True
  then show ?thesis
    by (simp add: upsert_track_rating_def filter_map_update [of "rating_key u a t", OF rating_key_update])
next
  case False
  then have "filter (rating_key u a t) (track_ratings db) = []"
    by (simp add: filter_empty_conv list_ex_iff)
  with False show ?thesis
    by (simp add: upsert_track_rating_def) (simp add: rating_key_def sql_eq_def)
qed

lemma upsert_track_rating_single:
  assumes "length (filter (rating_key u a t) (track_ratings db)) \<le> 1"
  shows "\<exists>row. filter (rating_key u a t) (track_ratings (upsert_track_rating now u a t n r db)) = [row]
           \<and> track_ratings_rating row = r \<and> track_ratings_updated_at row = now"
proof (cases "list_ex (rating_key u a t) (track_ratings db)")
  case True
  then have "filter (rating_key u a t) (track_ratings db) \<noteq> []"
    by (simp add: filter_empty_conv list_ex_iff)
  with assms obtain x where "filter (rating_key u a t) (track_ratings db) = [x]"
    by (cases "filter (rating_key u a t) (track_ratings db)") auto
  with True show ?thesis
    by (simp add: filter_rating_key_upsert)
next
  case False
  then show ?thesis
    by (simp add: filter_rating_key_upsert)
qed

lemma distinct_map_filter_le1:
  "distinct (map f xs) \<Longrightarrow> length (filter (\<lambda>x. f x = k) xs) \<le> 1"
proof (induction xs)
  case Nil
  then show ?case by simp
next
  case (Cons x xs)
  show ?case
  proof (cases "f x = k")
    case True
    with Cons.prems have "k \<notin> f ` set xs" by simp
    then have "\<forall>y \<in> set xs. f y \<noteq> k" by blast
    then have "filter (\<lambda>x. f x = k) xs = []"
      by (simp add: filter_empty_conv)
    with True show ?thesis by simp
  next
    case False
    with Cons show ?thesis by simp
  qed
qed

lemma rating_key_triple:
  "rating_key u a t =
     (\<lambda>r. (track_ratings_user_id r, track_ratings_album_id r, track_ratings_track_id r) = (u, a, t))"
  by (auto simp: rating_key_def sql_eq_def)

lemma unique_track_ratings_le1:
  "unique_track_ratings db \<Longrightarrow> length (filter (rating_key u a t) (track_ratings db)) \<le> 1"
  unfolding unique_track_ratings_def rating_key_triple by (rule distinct_map_filter_le1)

lemma unique_track_ratings_upsert:
  assumes "unique_track_ratings db"
  shows "unique_track_ratings (upsert_track_rating now u a t n r db)"
proof (cases "list_ex (rating_key u a t) (track_ratings db)")
  case True
  have "(\<lambda>row. (track_ratings_user_id
                  (if rating_key u a t row
                   then row\<lparr>track_ratings_rating := r, track_ratings_updated_at := now\<rparr>
                   else row),
                track_ratings_album_id
                  (if rating_key u a t row
                   then row\<lparr>track_ratings_rating := r, track_ratings_updated_at := now\<rparr>
                   else row),
                track_ratings_track_id
                  (if rating_key u a t row
                   then row\<lparr>track_ratings_rating := r, track_ratings_updated_at := now\<rparr>
                   else row)))
        = (\<lambda>r. (track_ratings_user_id r, track_ratings_album_id r, track_ratings_track_id r))"
    by (rule ext) simp
  with True assms show ?thesis
    by (simp add: unique_track_ratings_def upsert_track_rating_def o_def)
next
  case False
  then have "(u, a, t) \<notin> set (map (\<lambda>r. (track_ratings_user_id r, track_ratings_album_id r,
                                        track_ratings_track_id r)) (track_ratings db))"
    by (auto simp: list_ex_iff rating_key_def sql_eq_def)
  with False assms show ?thesis
    by (simp add: unique_track_ratings_def upsert_track_rating_def)
qed

text \<open>
  C4. In a store whose \<open>track_ratings\<close> rows have distinct keys, a logged-in user who rates
  a track of an album with 3 and then rates the same track with 5 is answered with
  success both times; afterwards the keys are still distinct and exactly one row has the
  key of the user, the album and the track: its rating is 5 and its \<open>updated_at\<close> is the
  time of the second request.
\<close>

theorem post_user_ratings_twice:
  assumes "requireLogin sess = Some userId" "present albumExternalId = Some e"
    "present trackId = Some t" "present trackName = Some n" "present trackName2 = Some n2"
    and "unique_track_ratings db"
    and "albumId = fst (findOrCreateAlbum e (or_default albumTitle (js ''Unknown album''))
                          (or_default albumArtist (js ''Unknown artist'')) (present coverUrl) db)"
    and "post_user_ratings now1 sess albumExternalId albumTitle albumArtist coverUrl trackId
           trackName (JNum (Finite 3)) db = (res1, db1)"
    and "post_user_ratings now2 sess albumExternalId albumTitle2 albumArtist2 coverUrl2 trackId
           trackName2 (JNum (Finite 5)) db1 = (res2, db2)"
  shows "res1 = Done \<and> res2 = Done \<and> unique_track_ratings db2 \<and>
     (\<exists>row. filter (rating_key userId albumId t) (track_ratings db2) = [row] \<and>
            track_ratings_rating row = 5 \<and> track_ratings_updated_at row = now2)"
proof -
  let ?foc = "findOrCreateAlbum e (or_default albumTitle (js ''Unknown album''))
                (or_default albumArtist (js ''Unknown artist'')) (present coverUrl) db"
  let ?dbA = "ensureUserAlbum now1 userId albumId (snd ?foc)"
  have ok: "Number_isInteger (Finite 3)" "Number_isInteger (Finite 5)"
    by (simp_all add: Number_isInteger_def)
  from assms(7,8) ok have res1: "res1 = Done"
    and db1: "db1 = upsert_track_rating now1 userId albumId t n 3 ?dbA"
    by (simp_all add: post_user_ratings_cases [OF assms(1-4)])
  have "albums db1 = albums (snd ?foc)"
    by (simp add: db1 upsert_track_rating_other_tables ensureUserAlbum_other_tables)
  with assms(7) have again: "findOrCreateAlbum e (or_default albumTitle2 (js ''Unknown album''))
                (or_default albumArtist2 (js ''Unknown artist'')) (present coverUrl2) db1
              = (albumId, db1)"
    by (intro findOrCreateAlbum_again [of e _ _ _ db _ "snd ?foc"]) simp_all
  let ?dbB = "ensureUserAlbum now2 userId albumId db1"
  from assms(9) ok again have res2: "res2 = Done"
    and db2: "db2 = upsert_track_rating now2 userId albumId t n2 5 ?dbB"
    by (simp_all add: post_user_ratings_cases [OF assms(1,2,3,5)])
  have uA: "unique_track_ratings ?dbA"
    using assms(6)
    by (simp add: unique_track_ratings_def ensureUserAlbum_other_tables
        findOrCreateAlbum_other_tables)
  then have u1: "unique_track_ratings db1"
    unfolding db1 by (rule unique_track_ratings_upsert)
  then have uB: "unique_track_ratings ?dbB"
    by (simp add: unique_track_ratings_def ensureUserAlbum_other_tables)
  then have u2: "unique_track_ratings db2"
    unfolding db2 by (rule unique_track_ratings_upsert)
  have "\<exists>row. filter (rating_key userId albumId t) (track_ratings db2) = [row] \<and>
            track_ratings_rating row = 5 \<and> track_ratings_updated_at row = now2"
    unfolding db2 by (rule upsert_track_rating_single [OF unique_track_ratings_le1 [OF uB]])
  with res1 res2 u2 show ?thesis by simp
qed

text \<open>C4: \<open>alice\<close> rates the track \<open>t1\<close> of \<open>album-1\<close> with 3 at time 7 and with 5 at time 9.\<close>

theorem post_user_ratings_twice_witness:
  "unique_track_ratings rated_twice \<and>
   (\<exists>row. filter (rating_key 1
                   (fst (findOrCreateAlbum (js ''album-1'') (or_default None (js ''Unknown album''))
                           (or_default None (js ''Unknown artist'')) (present None) alice_database))
                   (js ''t1''))
             (track_ratings rated_twice) = [row] \<and>
          track_ratings_rating row = 5 \<and> track_ratings_updated_at row = 9)"
proof -
  have s1: "post_user_ratings 7 alice_session (Some (js ''album-1'')) None None None
       (Some (js ''t1'')) (Some (js ''Intro'')) (JNum (Finite 3)) alice_database = (Done, rated_once)"
    by code_simp
  have s2: "post_user_ratings 9 alice_session (Some (js ''album-1'')) None None None
       (Some (js ''t1'')) (Some (js ''Intro'')) (JNum (Finite 5)) rated_once = (Done, rated_twice)"
    by code_simp
  have u: "unique_track_ratings alice_database"
    by (simp add: unique_track_ratings_def alice_database_eq)
  note w = post_user_ratings_twice
    [OF requireLogin_alice present_examples(1) present_examples(3) present_examples(4)
      present_examples(4) u refl s1 s2]
  then show ?thesis by blast
qed

section \<open>Reading the ratings\<close>

text \<open>
  C7: the code does not do what the claim says for the track id \<open>__proto__\<close>. \<open>alice\<close> has
  rated that track of \<open>album-1\<close> with 4 and the row is in \<open>track_ratings\<close>, but the object that
  \<open>GET /api/user/ratings/album-1\<close> answers with has no property: the assignment
  \<open>map["__proto__"] = ...\<close> sets the prototype of \<open>map\<close>. The rating of the track \<open>t1\<close> is
  returned as the claim says.
\<close>

theorem get_user_ratings_proto:
  "list_ex (\<lambda>row. track_ratings_user_id row = 1 \<and> track_ratings_track_id row = js ''__proto__''
                  \<and> track_ratings_rating row = 4) (track_ratings proto_database) \<and>
   get_user_ratings alice_session (js ''album-1'') proto_database = RatingMap [] \<and>
   get_user_ratings alice_session (js ''album-1'') rated_once =
     RatingMap [(js ''t1'', \<lparr>entry_trackId = js ''t1'', entry_trackName = js ''Intro'',
                              entry_rating = 3\<rparr>)]"
  by code_simp

lemma get_user_ratings_unknown_album:
  "requireLogin sess = Some userId \<Longrightarrow>
   filter (\<lambda>r. albums_external_id r = externalId) (albums db) = [] \<Longrightarrow>
     get_user_ratings sess externalId db = RatingMap []"
  by (simp add: get_user_ratings_def sql_eq_def)

lemma map_of_foldl_assign:
  "map_of (foldl (\<lambda>obj row. assign (k row) (v row) obj) obj0 rows) t =
     (if t = js ''__proto__'' then map_of obj0 t
      else case filter (\<lambda>row. k row = t) (rev rows) of
             [] \<Rightarrow> map_of obj0 t
           | row # _ \<Rightarrow> Some (v row))"
proof (induction rows arbitrary: t rule: rev_induct)
  case Nil
  show ?case by simp
next
  case (snoc r rows)
  show ?case
  proof (cases "k r = js ''__proto__''")
    case True
    with snoc show ?thesis
      by (simp add: assign_def)
  next
    case False
    with snoc show ?thesis
      by (simp add: assign_def update_conv')
  qed
qed

text \<open>
  What \<open>GET /api/user/ratings/:externalId\<close> answers in general: for an external id without
  album the empty object; for a known album an object whose property for a track id other
  than \<open>__proto__\<close> is the entry of the user's row for that track (the last one, should the
  table hold several), and which has no property \<open>__proto__\<close>.
\<close>

lemma get_user_ratings_known_album:
  assumes "requireLogin sess = Some userId"
    and "filter (\<lambda>r. albums_external_id r = externalId) (albums db) = album # rest"
  shows "\<exists>obj. get_user_ratings sess externalId db = RatingMap obj \<and>
     (\<forall>t. map_of obj t =
        (if t = js ''__proto__'' then None
         else case filter (\<lambda>row. track_ratings_track_id row = t)
                     (rev (filter (\<lambda>r. track_ratings_user_id r = userId \<and>
                                         track_ratings_album_id r = albums_id album)
                             (track_ratings db))) of
                [] \<Rightarrow> None
              | row # _ \<Rightarrow>
                  Some \<lparr>entry_trackId = track_ratings_track_id row,
                        entry_trackName = track_ratings_track_name row,
                        entry_rating = track_ratings_rating row\<rparr>))"
  using assms
  by (simp add: get_user_ratings_def sql_eq_def map_of_foldl_assign split: list.splits)

section \<open>The journal\<close>








end
